theory Spec2Isabelle
  imports Main "HOL-Library.Multiset"
begin

section \<open>Identifiers, dates and errors\<close>

text \<open>
  A MongoDB \<open>ObjectId\<close> is an opaque token compared with \<open>equals\<close>; it is a natural
  number here and \<open>equals\<close> is equality. A \<open>Date\<close> is its number of milliseconds since
  the epoch. Every \<open>new Date()\<close> of one operation reads the clock argument \<open>now\<close> of the
  model of that operation.
\<close>

type_synonym ObjectId = nat
type_synonym Date = int

text \<open>
  The error classes of \<open>concepts/errors\<close> that the concepts throw, and the plain
  \<open>Error\<close> that the routes throw, each with its message. \<open>TypeError\<close> is what
  JavaScript raises when the property that is called is not a function; it carries the
  name of the property.
\<close>

datatype error =
    BadValuesError string
  | NotFoundError string
  | NotAllowedError string
  | Error string
  | TypeError string

section \<open>The document store\<close>

text \<open>
  Modelled from the spec: the document store adapter (\<open>framework/doc\<close>, the class
  \<open>DocCollection\<close> and the interface \<open>BaseDoc\<close>) is imported by every concept and is not
  among the sources. The spec gives it as: per-collection create(doc) giving the id,
  readOne(filter) giving a document or null, readMany(filter, opts) giving a sequence,
  partialUpdateOne(filter, patch), deleteOne(filter) giving a count; documents are keyed by
  an opaque unique identifier and carry implicit creation and update timestamps.

  A collection is the list of its documents in insertion order. A filter is a predicate on
  documents, a patch is a function on documents. \<open>readOne\<close>, \<open>partialUpdateOne\<close> and
  \<open>deleteOne\<close> act on the first document that matches. The identifier of a new document
  is larger than every identifier in the collection.
\<close>

record BaseDoc =
  oid :: ObjectId
  dateCreated :: Date
  dateUpdated :: Date

type_synonym 'd DocCollection = "'d list"

datatype direction = Ascending | Descending

definition new_oid :: "'m BaseDoc_scheme DocCollection \<Rightarrow> ObjectId" where
  "new_oid ds = foldr (\<lambda>d n. max (Suc (oid d)) n) ds 0"

definition createOne ::
  "'m \<Rightarrow> Date \<Rightarrow> 'm BaseDoc_scheme DocCollection \<Rightarrow> ObjectId \<times> 'm BaseDoc_scheme DocCollection" where
  "createOne item now ds =
     (let i = new_oid ds
      in (i, ds @ [\<lparr>oid = i, dateCreated = now, dateUpdated = now, \<dots> = item\<rparr>]))"

definition readOne :: "('d \<Rightarrow> bool) \<Rightarrow> 'd DocCollection \<Rightarrow> 'd option" where
  "readOne flt ds = find flt ds"

definition readMany ::
  "('d \<Rightarrow> bool) \<Rightarrow> (('d \<Rightarrow> Date) \<times> direction) option \<Rightarrow> 'd DocCollection \<Rightarrow> 'd list" where
  "readMany flt srt ds =
     (case srt of
        None \<Rightarrow> filter flt ds
      | Some (key, Ascending) \<Rightarrow> sort_key key (filter flt ds)
      | Some (key, Descending) \<Rightarrow> rev (sort_key key (filter flt ds)))"

fun update_first :: "('d \<Rightarrow> bool) \<Rightarrow> ('d \<Rightarrow> 'd) \<Rightarrow> 'd list \<Rightarrow> 'd list" where
  "update_first flt upd [] = []"
| "update_first flt upd (d # ds) =
     (if flt d then upd d # ds else d # update_first flt upd ds)"

definition partialUpdateOne ::
  "('m BaseDoc_scheme \<Rightarrow> bool) \<Rightarrow> ('m BaseDoc_scheme \<Rightarrow> 'm BaseDoc_scheme) \<Rightarrow> Date \<Rightarrow>
   'm BaseDoc_scheme DocCollection \<Rightarrow> 'm BaseDoc_scheme DocCollection" where
  "partialUpdateOne flt patch now ds =
     update_first flt (\<lambda>d. (patch d)\<lparr>dateUpdated := now\<rparr>) ds"

fun delete_first :: "('d \<Rightarrow> bool) \<Rightarrow> 'd list \<Rightarrow> 'd list" where
  "delete_first flt [] = []"
| "delete_first flt (d # ds) = (if flt d then ds else d # delete_first flt ds)"

text \<open>\<open>deleteOne\<close> gives the driver's \<open>deletedCount\<close> and the collection left.\<close>

definition deleteOne :: "('d \<Rightarrow> bool) \<Rightarrow> 'd DocCollection \<Rightarrow> nat \<times> 'd DocCollection" where
  "deleteOne flt ds = (if find flt ds = None then 0 else 1, delete_first flt ds)"

section \<open>Texting (\<open>src/server/concepts/texting.ts\<close>)\<close>

record MessageDoc = BaseDoc +
  sender :: ObjectId
  recipient :: ObjectId
  content :: string
  timestamp :: Date

text \<open>The object \<open>{ msg, message }\<close> that \<open>sendMessage\<close> returns.\<close>

record sent =
  sent_msg :: string
  sent_message :: "MessageDoc option"

definition sendMessage ::
  "ObjectId \<Rightarrow> ObjectId \<Rightarrow> string \<Rightarrow> Date \<Rightarrow> MessageDoc DocCollection \<Rightarrow>
   (error + sent) \<times> MessageDoc DocCollection" where
  "sendMessage sndr rcpt cnt now ms =
     (if cnt = [] then (Inl (BadValuesError ''Message content cannot be empty''), ms)
      else
        (let (i, ms') = createOne (MessageDoc.fields sndr rcpt cnt now) now ms
         in (Inr \<lparr>sent_msg = ''Message sent successfully!'',
                  sent_message = readOne (\<lambda>d. oid d = i) ms'\<rparr>, ms')))"

definition getMessageById :: "ObjectId \<Rightarrow> MessageDoc DocCollection \<Rightarrow> error + MessageDoc" where
  "getMessageById i ms =
     (case readOne (\<lambda>d. oid d = i) ms of
        None \<Rightarrow> Inl (NotFoundError ''Message not found'')
      | Some m \<Rightarrow> Inr m)"

definition getMessagesBetweenUsers ::
  "ObjectId \<Rightarrow> ObjectId \<Rightarrow> MessageDoc DocCollection \<Rightarrow> MessageDoc list" where
  "getMessagesBetweenUsers user1 user2 ms =
     readMany (\<lambda>d. (sender d = user1 \<and> recipient d = user2) \<or>
                   (sender d = user2 \<and> recipient d = user1))
              (Some (timestamp, Ascending)) ms"

definition getMessagesForUser :: "ObjectId \<Rightarrow> MessageDoc DocCollection \<Rightarrow> MessageDoc list" where
  "getMessagesForUser userId ms =
     readMany (\<lambda>d. recipient d = userId) (Some (timestamp, Descending)) ms"

definition deleteMessage ::
  "ObjectId \<Rightarrow> MessageDoc DocCollection \<Rightarrow> (error + string) \<times> MessageDoc DocCollection" where
  "deleteMessage i ms =
     (let (n, ms') = deleteOne (\<lambda>d. oid d = i) ms
      in (Inr ''Message deleted successfully!'', ms'))"

section \<open>Video calling (\<open>VideoCallingConcept\<close>, second file of \<open>src/unnamed/part_000\<close>)\<close>

text \<open>
  The interface \<open>CallDoc\<close> declares \<open>caller\<close>, \<open>recipient\<close>, \<open>startTime\<close> and the optional
  \<open>endTime\<close>. The routes also read \<open>call.status\<close>, which the interface does not declare:
  on a document without that property JavaScript reads \<open>undefined\<close>. The field \<open>status\<close>
  below is that property, \<open>None\<close> when the document does not have it.
\<close>

record CallDoc = BaseDoc +
  caller :: ObjectId
  recipient :: ObjectId
  startTime :: Date
  endTime :: "Date option"
  status :: "string option"

text \<open>The object \<open>{ msg, call }\<close> that \<open>startCall\<close> returns.\<close>

record started =
  started_msg :: string
  started_call :: "CallDoc option"

text \<open>
  \<open>startCall\<close> writes \<open>{ caller, recipient, startTime }\<close>: no end time and no status.
\<close>

definition startCall ::
  "ObjectId \<Rightarrow> ObjectId \<Rightarrow> Date \<Rightarrow> CallDoc DocCollection \<Rightarrow>
   (error + started) \<times> CallDoc DocCollection" where
  "startCall clr rcpt now cs =
     (if clr = rcpt
      then (Inl (BadValuesError ''Caller and recipient cannot be the same user.''), cs)
      else
        (let (i, cs') = createOne (CallDoc.fields clr rcpt now None None) now cs
         in (Inr \<lparr>started_msg = ''Call started successfully!'',
                  started_call = readOne (\<lambda>d. oid d = i) cs'\<rparr>, cs')))"

text \<open>\<open>if (call.endTime)\<close>: a \<open>Date\<close> object is truthy, so the test is that the end time is set.\<close>

definition endCall ::
  "ObjectId \<Rightarrow> Date \<Rightarrow> CallDoc DocCollection \<Rightarrow> (error + string) \<times> CallDoc DocCollection" where
  "endCall callId now cs =
     (case readOne (\<lambda>d. oid d = callId) cs of
        None \<Rightarrow> (Inl (NotFoundError ''Call not found.''), cs)
      | Some call \<Rightarrow>
          (if endTime call \<noteq> None
           then (Inl (BadValuesError ''Call has already ended.''), cs)
           else (Inr ''Call ended successfully!'',
                 partialUpdateOne (\<lambda>d. oid d = callId) (\<lambda>d. d\<lparr>endTime := Some now\<rparr>) now cs)))"

definition getCallStatus :: "ObjectId \<Rightarrow> CallDoc DocCollection \<Rightarrow> error + CallDoc" where
  "getCallStatus callId cs =
     (case readOne (\<lambda>d. oid d = callId) cs of
        None \<Rightarrow> Inl (NotFoundError ''Call not found.'')
      | Some call \<Rightarrow> Inr call)"

text \<open>
  The class defines \<open>startCall\<close>, \<open>endCall\<close> and \<open>getCallStatus\<close> and nothing else. The
  routes also call \<open>getCallStatusForUser\<close>, \<open>getPendingCall\<close> and \<open>acceptPendingCall\<close> on the
  instance \<open>VideoCalling\<close> of \<open>app.ts\<close>. These three properties are arguments of the routes:
  \<open>None\<close> when the object has no such property, and the method otherwise, as a function of
  the collection. On the instance of the class of the sources all three are \<open>None\<close>.
\<close>

record 'r VideoCalling_properties =
  getCallStatusForUser :: "(ObjectId \<Rightarrow> CallDoc DocCollection \<Rightarrow> CallDoc option) option"
  getPendingCall :: "(ObjectId \<Rightarrow> CallDoc DocCollection \<Rightarrow> CallDoc option) option"
  acceptPendingCall ::
    "(ObjectId \<Rightarrow> CallDoc DocCollection \<Rightarrow> (error + 'r) \<times> CallDoc DocCollection) option"

definition VideoCalling :: "'r VideoCalling_properties" where
  "VideoCalling =
     \<lparr>getCallStatusForUser = None, getPendingCall = None, acceptPendingCall = None\<rparr>"

section \<open>The routes of the calls (\<open>Routes\<close>, first file of \<open>src/unnamed/part_000\<close>)\<close>

text \<open>
  Modelled from the spec: the concepts \<open>Sessioning\<close>, \<open>Authing\<close> and \<open>Friending\<close> that the
  routes call are not among the sources. The spec gives them as: the session context
  resolves the calling identity from request-scoped state and enforces the logged-in
  precondition; the identity directory maps usernames and opaque user identifiers to each
  other, and a resolution failure is a not-found error; \<open>assertAreFriends\<close> fails with an
  authorization error naming both parties if no friend edge exists, and the edge is
  symmetric. A session is the identifier of its user, if any; the directory is the list of
  the users' identifiers and usernames; the friendship graph is the list of its edges.
  Since a username that resolves to no user is an error of \<open>getUserByUsername\<close>, the test
  \<open>!recipientUser\<close> of the routes is never true and has no branch here.
\<close>

type_synonym SessionDoc = "ObjectId option"

definition getUser :: "SessionDoc \<Rightarrow> error + ObjectId" where
  "getUser session =
     (case session of
        None \<Rightarrow> Inl (NotAllowedError ''Must be logged in!'')
      | Some u \<Rightarrow> Inr u)"

type_synonym directory = "(ObjectId \<times> string) list"

definition getUserById :: "ObjectId \<Rightarrow> directory \<Rightarrow> error + (ObjectId \<times> string)" where
  "getUserById i us =
     (case find (\<lambda>u. fst u = i) us of
        None \<Rightarrow> Inl (NotFoundError ''User not found!'')
      | Some u \<Rightarrow> Inr u)"

definition getUserByUsername :: "string \<Rightarrow> directory \<Rightarrow> error + (ObjectId \<times> string)" where
  "getUserByUsername name us =
     (case find (\<lambda>u. snd u = name) us of
        None \<Rightarrow> Inl (NotFoundError ''User not found!'')
      | Some u \<Rightarrow> Inr u)"

definition assertAreFriends ::
  "ObjectId \<Rightarrow> ObjectId \<Rightarrow> string \<Rightarrow> string \<Rightarrow> (ObjectId \<times> ObjectId) list \<Rightarrow> error + unit" where
  "assertAreFriends u1 u2 name1 name2 fs =
     (if List.member fs (u1, u2) \<or> List.member fs (u2, u1) then Inr ()
      else Inl (NotAllowedError (name1 @ '' and '' @ name2 @ '' are not friends!'')))"

text \<open>What the routes work on: the directory, the friendship graph and the calls.\<close>

record app =
  users :: directory
  friends :: "(ObjectId \<times> ObjectId) list"
  calls :: "CallDoc DocCollection"

text \<open>
  The JSON object that \<open>GET /calls/status\<close> answers with: \<open>msg\<close> always, the other
  properties when the branch writes them.
\<close>

record call_status =
  cs_msg :: string
  cs_status :: "string option"
  cs_caller :: "string option"
  cs_recipient :: "string option"
  cs_otherUser :: "string option"

definition route_startCall ::
  "SessionDoc \<Rightarrow> string \<Rightarrow> Date \<Rightarrow> app \<Rightarrow> (error + started) \<times> app" where
  "route_startCall session rcpt now st =
     (case getUser session of
        Inl e \<Rightarrow> (Inl e, st)
      | Inr callerId \<Rightarrow>
     (case getUserById callerId (users st) of
        Inl e \<Rightarrow> (Inl e, st)
      | Inr callerUser \<Rightarrow>
     (case getUserByUsername rcpt (users st) of
        Inl e \<Rightarrow> (Inl e, st)
      | Inr recipientUser \<Rightarrow>
     (case assertAreFriends callerId (fst recipientUser) (snd callerUser) (snd recipientUser)
             (friends st) of
        Inl e \<Rightarrow> (Inl e, st)
      | Inr _ \<Rightarrow>
          (let (r, cs') = startCall callerId (fst recipientUser) now (calls st)
           in (r, st\<lparr>calls := cs'\<rparr>))))))"

definition route_endCall ::
  "'r VideoCalling_properties \<Rightarrow> SessionDoc \<Rightarrow> Date \<Rightarrow> app \<Rightarrow> (error + string) \<times> app" where
  "route_endCall vc session now st =
     (case getUser session of
        Inl e \<Rightarrow> (Inl e, st)
      | Inr userId \<Rightarrow>
     (case getCallStatusForUser vc of
        None \<Rightarrow> (Inl (TypeError ''getCallStatusForUser''), st)
      | Some getCallStatusForUser' \<Rightarrow>
     (case getCallStatusForUser' userId (calls st) of
        None \<Rightarrow> (Inl (Error ''You are not currently in any call to end.''), st)
      | Some call \<Rightarrow>
          (let (r, cs') = endCall (oid call) now (calls st)
           in (r, st\<lparr>calls := cs'\<rparr>)))))"

definition route_getCallStatus ::
  "'r VideoCalling_properties \<Rightarrow> SessionDoc \<Rightarrow> app \<Rightarrow> error + call_status" where
  "route_getCallStatus vc session st =
     (case getUser session of
        Inl e \<Rightarrow> Inl e
      | Inr userId \<Rightarrow>
     (case getCallStatusForUser vc of
        None \<Rightarrow> Inl (TypeError ''getCallStatusForUser'')
      | Some getCallStatusForUser' \<Rightarrow>
     (case getCallStatusForUser' userId (calls st) of
        None \<Rightarrow>
          (case getPendingCall vc of
             None \<Rightarrow> Inl (TypeError ''getPendingCall'')
           | Some getPendingCall' \<Rightarrow>
          (case getPendingCall' userId (calls st) of
             Some pendingCall \<Rightarrow>
               (case getUserById (caller pendingCall) (users st) of
                  Inl e \<Rightarrow> Inl e
                | Inr callerUser \<Rightarrow>
                    Inr \<lparr>cs_msg = snd callerUser @ '' is calling you.'',
                         cs_status = Some ''pending'', cs_caller = Some (snd callerUser),
                         cs_recipient = None, cs_otherUser = None\<rparr>)
           | None \<Rightarrow>
               Inr \<lparr>cs_msg = ''You are not in a call and no one is calling you.'',
                    cs_status = None, cs_caller = None,
                    cs_recipient = None, cs_otherUser = None\<rparr>))
      | Some call \<Rightarrow>
          (let isCaller = (caller call = userId);
               otherUserId = (if isCaller then recipient call else caller call)
           in (case getUserById otherUserId (users st) of
                 Inl e \<Rightarrow> Inl e
               | Inr otherUser \<Rightarrow>
                   (if status call = Some ''pending'' then
                      (if isCaller then
                         Inr \<lparr>cs_msg = ''You are ringing '' @ snd otherUser @ ''.'',
                              cs_status = Some ''pending'', cs_caller = None,
                              cs_recipient = Some (snd otherUser), cs_otherUser = None\<rparr>
                       else
                         Inr \<lparr>cs_msg = snd otherUser @ '' is calling you.'',
                              cs_status = Some ''pending'', cs_caller = Some (snd otherUser),
                              cs_recipient = None, cs_otherUser = None\<rparr>)
                    else
                      Inr \<lparr>cs_msg = ''You are in an active call with '' @ snd otherUser @ ''.'',
                           cs_status = Some ''active'', cs_caller = None,
                           cs_recipient = None, cs_otherUser = Some (snd otherUser)\<rparr>))))))"

definition route_acceptCall ::
  "'r VideoCalling_properties \<Rightarrow> SessionDoc \<Rightarrow> app \<Rightarrow> (error + 'r) \<times> app" where
  "route_acceptCall vc session st =
     (case getUser session of
        Inl e \<Rightarrow> (Inl e, st)
      | Inr recipientId \<Rightarrow>
     (case acceptPendingCall vc of
        None \<Rightarrow> (Inl (TypeError ''acceptPendingCall''), st)
      | Some acceptPendingCall' \<Rightarrow>
          (let (r, cs') = acceptPendingCall' recipientId (calls st)
           in (r, st\<lparr>calls := cs'\<rparr>))))"

section \<open>Mood mapping (\<open>MoodMappingConcept\<close> of \<open>src/unnamed/part_002\<close>)\<close>

text \<open>
  This is the class with moods per user and friend, the one whose \<open>setMood\<close> and
  \<open>removeMood\<close> take the three and two arguments that the routes pass.

  A mood is a JavaScript string, here the list of its code points. The test
  \<open>/^\p{Emoji}$/u\<close> holds of a string of exactly one code point that has the Unicode
  property Emoji. The table of that property is an argument, \<open>emoji\<close>, of the model.
  \<open>!mood\<close> holds of the empty string.
\<close>

type_synonym codepoint = nat

record MoodDoc = BaseDoc +
  user :: ObjectId
  friend :: ObjectId
  mood :: "codepoint list"

definition test_Emoji :: "(codepoint \<Rightarrow> bool) \<Rightarrow> codepoint list \<Rightarrow> bool" where
  "test_Emoji emoji m = (case m of [c] \<Rightarrow> emoji c | _ \<Rightarrow> False)"

text \<open>The object \<open>{ msg, mood }\<close> that \<open>setMood\<close> returns.\<close>

record mood_set =
  set_msg :: string
  set_mood :: "MoodDoc option"

definition setMood ::
  "(codepoint \<Rightarrow> bool) \<Rightarrow> ObjectId \<Rightarrow> ObjectId \<Rightarrow> codepoint list \<Rightarrow> Date \<Rightarrow>
   MoodDoc DocCollection \<Rightarrow> (error + mood_set) \<times> MoodDoc DocCollection" where
  "setMood emoji u f m now ms =
     (if m = [] \<or> \<not> test_Emoji emoji m
      then (Inl (BadValuesError ''Mood must be a valid emoji!''), ms)
      else
        (case readOne (\<lambda>d. user d = u) ms of
           Some existingMood \<Rightarrow>
             (let ms' = partialUpdateOne (\<lambda>d. user d = u \<and> friend d = f)
                          (\<lambda>d. d\<lparr>mood := m\<rparr>) now ms
              in (Inr \<lparr>set_msg = ''Mood updated successfully!'',
                       set_mood = readOne (\<lambda>d. user d = u \<and> friend d = f) ms'\<rparr>, ms'))
         | None \<Rightarrow>
             (let (i, ms') = createOne (MoodDoc.fields u f m) now ms
              in (Inr \<lparr>set_msg = ''Mood set successfully!'',
                       set_mood = readOne (\<lambda>d. oid d = i) ms'\<rparr>, ms'))))"

text \<open>The object \<open>{ yourMood, friendMood }\<close> that \<open>getBothMoods\<close> returns.\<close>

record both_moods =
  yourMood :: "codepoint list option"
  friendMood :: "codepoint list option"

definition getBothMoods :: "ObjectId \<Rightarrow> ObjectId \<Rightarrow> MoodDoc DocCollection \<Rightarrow> both_moods" where
  "getBothMoods u f ms =
     (let yourMoodDoc = readOne (\<lambda>d. user d = u \<and> friend d = f) ms;
          friendMoodDoc = readOne (\<lambda>d. user d = f \<and> friend d = u) ms
      in \<lparr>yourMood = map_option mood yourMoodDoc,
           friendMood = map_option mood friendMoodDoc\<rparr>)"

definition removeMood ::
  "ObjectId \<Rightarrow> ObjectId \<Rightarrow> MoodDoc DocCollection \<Rightarrow> (error + string) \<times> MoodDoc DocCollection" where
  "removeMood u f ms =
     (let (deletedCount, ms') = deleteOne (\<lambda>d. user d = u \<and> friend d = f) ms
      in if deletedCount = 0
         then (Inl (NotFoundError ''No mood was set for this user.''), ms')
         else (Inr ''Mood removed successfully!'', ms'))"

text \<open>
  The operations of the concept as values, and a run of them from a collection: the
  collections reachable from the empty one are the \<open>run_moods emoji ops []\<close>.
\<close>

datatype mood_op =
    SetMood ObjectId ObjectId "codepoint list" Date
  | GetBothMoods ObjectId ObjectId
  | RemoveMood ObjectId ObjectId

fun step_mood :: "(codepoint \<Rightarrow> bool) \<Rightarrow> mood_op \<Rightarrow> MoodDoc DocCollection \<Rightarrow> MoodDoc DocCollection" where
  "step_mood emoji (SetMood u f m now) ms = snd (setMood emoji u f m now ms)"
| "step_mood emoji (GetBothMoods u f) ms = ms"
| "step_mood emoji (RemoveMood u f) ms = snd (removeMood u f ms)"

fun run_moods :: "(codepoint \<Rightarrow> bool) \<Rightarrow> mood_op list \<Rightarrow> MoodDoc DocCollection \<Rightarrow> MoodDoc DocCollection" where
  "run_moods emoji [] ms = ms"
| "run_moods emoji (op # ops) ms = run_moods emoji ops (step_mood emoji op ms)"

section \<open>Predicates of the claims\<close>

text \<open>A call record that has no end time and has the user as caller or as recipient.\<close>

definition unended_for :: "ObjectId \<Rightarrow> CallDoc \<Rightarrow> bool" where
  "unended_for u d = (endTime d = None \<and> (caller d = u \<or> CallDoc.recipient d = u))"

text \<open>
  A part of the table of the Unicode property Emoji: U+2639 and U+263A, the frowning and
  the smiling face.
\<close>

definition faces :: "codepoint \<Rightarrow> bool" where
  "faces c = (c = 9785 \<or> c = 9786)"

section \<open>The scenario of the calls\<close>

text \<open>
  The users alice (identifier 1) and bob (identifier 2) exist and are friends, and no call
  is stored. Then alice starts a call to bob (\<open>POST /calls\<close>).
\<close>

definition alice_bob_friends :: app where
  "alice_bob_friends =
     \<lparr>users = [(1, ''alice''), (2, ''bob'')], friends = [(1, 2)], calls = []\<rparr>"

definition alice_called :: app where
  "alice_called = snd (route_startCall (Some 1) ''bob'' 100 alice_bob_friends)"

section \<open>Facts about the store\<close>

lemma oid_less_new_oid: "d \<in> set ds \<Longrightarrow> oid d < new_oid ds"
  unfolding new_oid_def by (induction ds) (auto simp: less_max_iff_disj)

lemma find_append_fresh:
  "find flt ds = None \<Longrightarrow> flt d \<Longrightarrow> find flt (ds @ [d]) = Some d"
  by (induction ds) (auto split: if_splits)

lemma find_new_oid: "find (\<lambda>d. oid d = new_oid ds) ds = None"
proof -
  have "oid d \<noteq> new_oid ds" if "d \<in> set ds" for d
    using oid_less_new_oid [OF that] by simp
  then show ?thesis by (simp add: find_None_iff)
qed

lemma filter_mset_union:
  "filter_mset P M \<union># filter_mset Q M = filter_mset (\<lambda>x. P x \<or> Q x) M"
  by (rule multiset_eqI) simp

lemma delete_first_no_match: "find flt ds = None \<Longrightarrow> delete_first flt ds = ds"
  by (induction ds) (auto split: if_splits)

lemma length_delete_first:
  "find flt ds \<noteq> None \<Longrightarrow> Suc (length (delete_first flt ds)) = length ds"
  by (induction ds) (auto split: if_splits)

lemma new_oid_Nil: "new_oid [] = 0"
  by (simp add: new_oid_def)

lemma readOne_createOne:
  "readOne (\<lambda>d. oid d = fst (createOne item now ds)) (snd (createOne item now ds)) =
     Some \<lparr>oid = new_oid ds, dateCreated = now, dateUpdated = now, \<dots> = item\<rparr>"
  unfolding readOne_def createOne_def
  by (simp add: Let_def find_append_fresh find_new_oid)

lemma update_first_no_match: "find flt ds = None \<Longrightarrow> update_first flt upd ds = ds"
  by (induction ds) (auto split: if_splits)

lemma length_update_first: "length (update_first flt upd ds) = length ds"
  by (induction ds) auto

lemma find_update_first_oid:
  "find (\<lambda>d. oid d = i) ds = Some c \<Longrightarrow> oid (upd c) = i \<Longrightarrow>
   find (\<lambda>d. oid d = i) (update_first (\<lambda>d. oid d = i) upd ds) = Some (upd c)"
  by (induction ds) (auto split: if_splits)

lemma find_Some_oid: "find (\<lambda>d. oid d = i) ds = Some c \<Longrightarrow> oid c = i"
  by (induction ds) (auto split: if_splits)

lemma map_update_first:
  "(\<And>d. f (upd d) = f d) \<Longrightarrow> map f (update_first flt upd ds) = map f ds"
  by (induction ds) auto

lemma filter_delete_first: "filter flt (delete_first flt ds) = tl (filter flt ds)"
  by (induction ds) auto

lemma filter_not_delete_first:
  "filter (\<lambda>d. \<not> flt d) (delete_first flt ds) = filter (\<lambda>d. \<not> flt d) ds"
  by (induction ds) auto

lemma set_delete_first: "set (delete_first flt ds) \<subseteq> set ds"
  by (induction ds) auto

lemma distinct_map_delete_first:
  "distinct (map f ds) \<Longrightarrow> distinct (map f (delete_first flt ds))"
proof (induction ds)
  case Nil
  then show ?case by simp
next
  case (Cons d ds)
  have "f d \<notin> f ` set (delete_first flt ds)"
    using Cons.prems set_delete_first [of flt ds] by auto
  with Cons show ?case by simp
qed

lemma find_None_filter: "(find flt ds = None) = (filter flt ds = [])"
  by (induction ds) auto

lemma distinct_map_count:
  "distinct (map f ds) \<Longrightarrow> length (filter (\<lambda>d. f d = u) ds) \<le> 1"
  by (induction ds) (auto simp: filter_empty_conv image_iff)

section \<open>Facts about mood mapping\<close>

lemma test_Emoji_Nil: "test_Emoji emoji [] = False"
  by (simp add: test_Emoji_def)

lemma setMood_cases:
  "snd (setMood emoji u f m now ms) =
     (if \<not> test_Emoji emoji m then ms
      else if find (\<lambda>d. user d = u) ms = None
      then ms @ [\<lparr>oid = new_oid ms, dateCreated = now, dateUpdated = now,
                   user = u, friend = f, mood = m\<rparr>]
      else update_first (\<lambda>d. user d = u \<and> friend d = f)
             (\<lambda>d. d\<lparr>mood := m, dateUpdated := now\<rparr>) ms)"
  by (auto simp: setMood_def test_Emoji_Nil readOne_def createOne_def partialUpdateOne_def
        Let_def MoodDoc.defs split: option.splits)

lemma distinct_users_setMood:
  assumes "distinct (map user ms)"
  shows "distinct (map user (snd (setMood emoji u f m now ms)))"
proof -
  have "u \<notin> user ` set ms" if "find (\<lambda>d. user d = u) ms = None"
    using that by (auto simp: find_None_iff)
  moreover have "map user (update_first (\<lambda>d. user d = u \<and> friend d = f)
             (\<lambda>d. d\<lparr>mood := m, dateUpdated := now\<rparr>) ms) = map user ms"
    by (rule map_update_first) simp
  ultimately show ?thesis
    using assms by (simp add: setMood_cases)
qed

lemma distinct_users_removeMood:
  "distinct (map user ms) \<Longrightarrow> distinct (map user (snd (removeMood u f ms)))"
  by (simp add: removeMood_def deleteOne_def distinct_map_delete_first)

lemma distinct_users_step:
  "distinct (map user ms) \<Longrightarrow> distinct (map user (step_mood emoji op ms))"
  by (cases op) (simp_all add: distinct_users_setMood distinct_users_removeMood)

lemma distinct_users_run:
  "distinct (map user ms) \<Longrightarrow> distinct (map user (run_moods emoji ops ms))"
  by (induction ops arbitrary: ms) (simp_all add: distinct_users_step)

section \<open>The states of the scenario\<close>

lemma alice_called_calls:
  "alice_called =
     \<lparr>users = [(1, ''alice''), (2, ''bob'')], friends = [(1, 2)],
      calls = [\<lparr>oid = 0, dateCreated = 100, dateUpdated = 100, caller = 1, recipient = 2,
                 startTime = 100, endTime = None, status = None\<rparr>]\<rparr>"
  by (simp add: alice_called_def alice_bob_friends_def route_startCall_def getUser_def
        getUserById_def getUserByUsername_def assertAreFriends_def startCall_def
        createOne_def new_oid_def readOne_def CallDoc.defs)

section \<open>Texting: the claims\<close>

text \<open>
  C5. For every pair of users and every collection of messages,
  \<open>getMessagesBetweenUsers a b\<close> returns, as a multiset, exactly the stored messages sent
  from \<open>a\<close> to \<open>b\<close> together with those sent from \<open>b\<close> to \<open>a\<close> (their union), and the
  returned sequence is sorted ascending by timestamp.
\<close>

theorem getMessagesBetweenUsers_transcript:
  "mset (getMessagesBetweenUsers a b ms) =
     filter_mset (\<lambda>m. sender m = a \<and> MessageDoc.recipient m = b) (mset ms) \<union>#
     filter_mset (\<lambda>m. sender m = b \<and> MessageDoc.recipient m = a) (mset ms)
   \<and> sorted (map timestamp (getMessagesBetweenUsers a b ms))"
proof
  show "mset (getMessagesBetweenUsers a b ms) =
     filter_mset (\<lambda>m. sender m = a \<and> MessageDoc.recipient m = b) (mset ms) \<union>#
     filter_mset (\<lambda>m. sender m = b \<and> MessageDoc.recipient m = a) (mset ms)"
    unfolding getMessagesBetweenUsers_def readMany_def
    by (simp add: filter_mset_union)
  show "sorted (map timestamp (getMessagesBetweenUsers a b ms))"
    unfolding getMessagesBetweenUsers_def readMany_def by simp
qed

text \<open>
  C8. For every user and every collection of messages, \<open>getMessagesForUser u\<close> returns
  exactly the stored messages whose recipient is \<open>u\<close> (as a multiset: each as often as it
  is stored), sorted descending by timestamp.
\<close>

theorem getMessagesForUser_inbox:
  "mset (getMessagesForUser u ms) = filter_mset (\<lambda>m. MessageDoc.recipient m = u) (mset ms)
   \<and> sorted_wrt (\<lambda>x y. x \<ge> y) (map timestamp (getMessagesForUser u ms))"
proof
  show "mset (getMessagesForUser u ms) = filter_mset (\<lambda>m. MessageDoc.recipient m = u) (mset ms)"
    unfolding getMessagesForUser_def readMany_def by simp
  have "sorted (map timestamp (sort_key timestamp (filter (\<lambda>d. MessageDoc.recipient d = u) ms)))"
    by simp
  then have "sorted_wrt (\<lambda>x y. x \<ge> y)
               (rev (map timestamp (sort_key timestamp (filter (\<lambda>d. MessageDoc.recipient d = u) ms))))"
    by (simp only: sorted_wrt_rev)
  then show "sorted_wrt (\<lambda>x y. x \<ge> y) (map timestamp (getMessagesForUser u ms))"
    unfolding getMessagesForUser_def readMany_def by (simp add: rev_map)
qed

text \<open>
  C10. For every identifier and every collection, \<open>deleteMessage\<close> returns the success
  message and no error, whether or not a message with that identifier is stored; it
  removes the message with that identifier when there is one and leaves the collection as
  it is when there is none. It takes no user, so it checks no authorization.
\<close>

theorem deleteMessage_always_succeeds:
  "fst (deleteMessage i ms) = Inr ''Message deleted successfully!''
   \<and> snd (deleteMessage i ms) = delete_first (\<lambda>d. oid d = i) ms
   \<and> (if find (\<lambda>d. oid d = i) ms = None then snd (deleteMessage i ms) = ms
      else Suc (length (snd (deleteMessage i ms))) = length ms)"
  unfolding deleteMessage_def deleteOne_def
  by (simp add: delete_first_no_match length_delete_first)

section \<open>Video calling: the claims\<close>

text \<open>
  C3. For every user \<open>a\<close>, \<open>startCall a a\<close> fails with the BadValues error and leaves the
  collection as it is; for every caller and recipient that differ, \<open>startCall\<close> succeeds
  and appends one call record, with the start time set and no end time.
\<close>

theorem startCall_self_or_fresh:
  "startCall a a now cs =
     (Inl (BadValuesError ''Caller and recipient cannot be the same user.''), cs)
   \<and> (clr \<noteq> rcpt \<longrightarrow>
        startCall clr rcpt now cs =
          (Inr \<lparr>started_msg = ''Call started successfully!'',
                started_call =
                  Some \<lparr>oid = new_oid cs, dateCreated = now, dateUpdated = now,
                         caller = clr, recipient = rcpt, startTime = now,
                         endTime = None, status = None\<rparr>\<rparr>,
           cs @ [\<lparr>oid = new_oid cs, dateCreated = now, dateUpdated = now,
                   caller = clr, recipient = rcpt, startTime = now,
                   endTime = None, status = None\<rparr>]))"
proof
  show "startCall a a now cs =
     (Inl (BadValuesError ''Caller and recipient cannot be the same user.''), cs)"
    by (simp add: startCall_def)
next
  have r: "readOne (\<lambda>d. oid d = new_oid cs)
             (cs @ [\<lparr>oid = new_oid cs, dateCreated = now, dateUpdated = now,
                      caller = clr, recipient = rcpt, startTime = now,
                      endTime = None, status = None\<rparr>]) =
           Some \<lparr>oid = new_oid cs, dateCreated = now, dateUpdated = now,
                  caller = clr, recipient = rcpt, startTime = now,
                  endTime = None, status = None\<rparr>"
    unfolding readOne_def by (simp add: find_append_fresh find_new_oid)
  show "clr \<noteq> rcpt \<longrightarrow>
        startCall clr rcpt now cs =
          (Inr \<lparr>started_msg = ''Call started successfully!'',
                started_call =
                  Some \<lparr>oid = new_oid cs, dateCreated = now, dateUpdated = now,
                         caller = clr, recipient = rcpt, startTime = now,
                         endTime = None, status = None\<rparr>\<rparr>,
           cs @ [\<lparr>oid = new_oid cs, dateCreated = now, dateUpdated = now,
                   caller = clr, recipient = rcpt, startTime = now,
                   endTime = None, status = None\<rparr>])"
    using r by (simp add: startCall_def createOne_def Let_def CallDoc.defs)
qed

theorem startCall_self_or_fresh_witness:
  "startCall 7 7 5 [] =
     (Inl (BadValuesError ''Caller and recipient cannot be the same user.''), [])
   \<and> (1::nat) \<noteq> 2
   \<and> startCall 1 2 5 [] =
       (Inr \<lparr>started_msg = ''Call started successfully!'',
             started_call =
               Some \<lparr>oid = 0, dateCreated = 5, dateUpdated = 5, caller = 1, recipient = 2,
                      startTime = 5, endTime = None, status = None\<rparr>\<rparr>,
        [\<lparr>oid = 0, dateCreated = 5, dateUpdated = 5, caller = 1, recipient = 2,
           startTime = 5, endTime = None, status = None\<rparr>])"
  using startCall_self_or_fresh [of 7 5 "[]" 1 2] by (simp add: new_oid_Nil)

text \<open>
  C2, as stated: when the caller or the recipient already has a call record without end
  time, \<open>startCall\<close> creates no second call record. It does: with one un-ended call from
  user 1 to user 2 stored, \<open>startCall 1 2\<close> succeeds and stores a second one.
\<close>

theorem startCall_overlap_counterexample:
  "unended_for 1 \<lparr>oid = 0, dateCreated = 100, dateUpdated = 100, caller = 1, recipient = 2,
                    startTime = 100, endTime = None, status = None\<rparr>
   \<and> startCall 1 2 200
        [\<lparr>oid = 0, dateCreated = 100, dateUpdated = 100, caller = 1, recipient = 2,
           startTime = 100, endTime = None, status = None\<rparr>] =
       (Inr \<lparr>started_msg = ''Call started successfully!'',
             started_call =
               Some \<lparr>oid = 1, dateCreated = 200, dateUpdated = 200, caller = 1, recipient = 2,
                      startTime = 200, endTime = None, status = None\<rparr>\<rparr>,
        [\<lparr>oid = 0, dateCreated = 100, dateUpdated = 100, caller = 1, recipient = 2,
           startTime = 100, endTime = None, status = None\<rparr>,
         \<lparr>oid = 1, dateCreated = 200, dateUpdated = 200, caller = 1, recipient = 2,
           startTime = 200, endTime = None, status = None\<rparr>])"
  by (simp add: unended_for_def startCall_def createOne_def new_oid_def readOne_def
        CallDoc.defs)

text \<open>
  C2, amended: the only precondition that \<open>startCall\<close> checks is that caller and recipient
  differ. Whenever they differ it succeeds, whatever calls are stored, and both the caller
  and the recipient then have one more call record without end time than before.
\<close>

theorem startCall_ignores_unended_calls:
  "clr \<noteq> rcpt \<Longrightarrow>
   isl (fst (startCall clr rcpt now cs)) = False
   \<and> length (filter (unended_for clr) (snd (startCall clr rcpt now cs))) =
       Suc (length (filter (unended_for clr) cs))
   \<and> length (filter (unended_for rcpt) (snd (startCall clr rcpt now cs))) =
       Suc (length (filter (unended_for rcpt) cs))"
  by (simp add: startCall_def createOne_def Let_def unended_for_def CallDoc.defs)

theorem startCall_ignores_unended_calls_witness:
  "(1::nat) \<noteq> 2
   \<and> length (filter (unended_for 1)
        [\<lparr>oid = 0, dateCreated = 100, dateUpdated = 100, caller = 1, recipient = 2,
           startTime = 100, endTime = None, status = None\<rparr>]) = 1
   \<and> length (filter (unended_for 1) (snd (startCall 1 2 200
        [\<lparr>oid = 0, dateCreated = 100, dateUpdated = 100, caller = 1, recipient = 2,
           startTime = 100, endTime = None, status = None\<rparr>]))) = 2"
  using startCall_ignores_unended_calls [of 1 2 200
        "[\<lparr>oid = 0, dateCreated = 100, dateUpdated = 100, caller = 1, recipient = 2,
           startTime = 100, endTime = None, status = None\<rparr>]"]
  by (simp add: unended_for_def)

text \<open>
  C4. \<open>endCall\<close> fails with NotFound and changes nothing when no call has the identifier;
  it fails with BadValues and changes nothing when the call already has an end time; when
  the call has no end time it succeeds and sets the end time of that call (and the update
  timestamp), and a second \<open>endCall\<close> of the same identifier then fails and changes nothing.
\<close>

theorem endCall_sets_end_time_once:
  "(find (\<lambda>d. oid d = i) cs = None \<longrightarrow>
      endCall i now cs = (Inl (NotFoundError ''Call not found.''), cs))
   \<and> (find (\<lambda>d. oid d = i) cs = Some c \<and> endTime c \<noteq> None \<longrightarrow>
      endCall i now cs = (Inl (BadValuesError ''Call has already ended.''), cs))
   \<and> (find (\<lambda>d. oid d = i) cs = Some c \<and> endTime c = None \<longrightarrow>
      fst (endCall i now cs) = Inr ''Call ended successfully!''
      \<and> find (\<lambda>d. oid d = i) (snd (endCall i now cs)) =
          Some (c\<lparr>endTime := Some now, dateUpdated := now\<rparr>)
      \<and> length (snd (endCall i now cs)) = length cs
      \<and> endCall i now' (snd (endCall i now cs)) =
          (Inl (BadValuesError ''Call has already ended.''), snd (endCall i now cs)))"
proof (intro conjI impI)
  assume "find (\<lambda>d. oid d = i) cs = None"
  then show "endCall i now cs = (Inl (NotFoundError ''Call not found.''), cs)"
    by (simp add: endCall_def readOne_def)
next
  assume "find (\<lambda>d. oid d = i) cs = Some c \<and> endTime c \<noteq> None"
  then show "endCall i now cs = (Inl (BadValuesError ''Call has already ended.''), cs)"
    by (auto simp add: endCall_def readOne_def)
next
  assume a: "find (\<lambda>d. oid d = i) cs = Some c \<and> endTime c = None"
  let ?cs' = "update_first (\<lambda>d. oid d = i)
                (\<lambda>d. d\<lparr>endTime := Some now, dateUpdated := now\<rparr>) cs"
  have e: "endCall i now cs = (Inr ''Call ended successfully!'', ?cs')"
    using a by (simp add: endCall_def readOne_def partialUpdateOne_def)
  have "oid (c\<lparr>endTime := Some now, dateUpdated := now\<rparr>) = i"
    using a find_Some_oid [of i cs c] by simp
  then have f: "find (\<lambda>d. oid d = i) ?cs' = Some (c\<lparr>endTime := Some now, dateUpdated := now\<rparr>)"
    using a find_update_first_oid
      [of i cs c "\<lambda>d. d\<lparr>endTime := Some now, dateUpdated := now\<rparr>"] by simp
  show "fst (endCall i now cs) = Inr ''Call ended successfully!''"
    by (simp add: e)
  show "find (\<lambda>d. oid d = i) (snd (endCall i now cs)) =
          Some (c\<lparr>endTime := Some now, dateUpdated := now\<rparr>)"
    using f by (simp add: e)
  show "length (snd (endCall i now cs)) = length cs"
    by (simp add: e length_update_first)
  have "endCall i now' ?cs' = (Inl (BadValuesError ''Call has already ended.''), ?cs')"
    using f by (simp add: endCall_def readOne_def)
  then show "endCall i now' (snd (endCall i now cs)) =
          (Inl (BadValuesError ''Call has already ended.''), snd (endCall i now cs))"
    by (simp only: e snd_conv)
qed

theorem endCall_sets_end_time_once_witness:
  "find (\<lambda>d. oid d = 4) ([] :: CallDoc list) = None
   \<and> endCall 4 300 [] = (Inl (NotFoundError ''Call not found.''), [])
   \<and> endCall 0 300
        [\<lparr>oid = 0, dateCreated = 100, dateUpdated = 200, caller = 1, recipient = 2,
           startTime = 100, endTime = Some 200, status = None\<rparr>] =
       (Inl (BadValuesError ''Call has already ended.''),
        [\<lparr>oid = 0, dateCreated = 100, dateUpdated = 200, caller = 1, recipient = 2,
           startTime = 100, endTime = Some 200, status = None\<rparr>])
   \<and> fst (endCall 0 300
        [\<lparr>oid = 0, dateCreated = 100, dateUpdated = 100, caller = 1, recipient = 2,
           startTime = 100, endTime = None, status = None\<rparr>]) =
       Inr ''Call ended successfully!''
   \<and> fst (endCall 0 400 (snd (endCall 0 300
        [\<lparr>oid = 0, dateCreated = 100, dateUpdated = 100, caller = 1, recipient = 2,
           startTime = 100, endTime = None, status = None\<rparr>]))) =
       Inl (BadValuesError ''Call has already ended.'')"
  using endCall_sets_end_time_once [of 4 "[]" 300]
    endCall_sets_end_time_once [of 0
        "[\<lparr>oid = 0, dateCreated = 100, dateUpdated = 200, caller = 1, recipient = 2,
           startTime = 100, endTime = Some 200, status = None\<rparr>]" 300
        "\<lparr>oid = 0, dateCreated = 100, dateUpdated = 200, caller = 1, recipient = 2,
           startTime = 100, endTime = Some 200, status = None\<rparr>"]
    endCall_sets_end_time_once [of 0
        "[\<lparr>oid = 0, dateCreated = 100, dateUpdated = 100, caller = 1, recipient = 2,
           startTime = 100, endTime = None, status = None\<rparr>]" 300
        "\<lparr>oid = 0, dateCreated = 100, dateUpdated = 100, caller = 1, recipient = 2,
           startTime = 100, endTime = None, status = None\<rparr>" 400]
  by simp

section \<open>Mood mapping: the claims\<close>

text \<open>
  C7. \<open>removeMood user friend\<close> raises the NotFound error exactly when \<open>deleteOne\<close>
  deleted nothing, which is exactly when no mood record is stored for the directed pair;
  the collection is then as before. When a record is stored for the pair, \<open>removeMood\<close>
  succeeds and deletes one: the first record of the pair goes, every other record stays.
\<close>

theorem removeMood_NotFound_iff_none_deleted:
  "(fst (removeMood u f ms) = Inl (NotFoundError ''No mood was set for this user.''))
     = (fst (deleteOne (\<lambda>d. user d = u \<and> friend d = f) ms) = 0)
   \<and> (fst (deleteOne (\<lambda>d. user d = u \<and> friend d = f) ms) = 0)
     = (filter (\<lambda>d. user d = u \<and> friend d = f) ms = [])
   \<and> (filter (\<lambda>d. user d = u \<and> friend d = f) ms = [] \<longrightarrow>
        snd (removeMood u f ms) = ms)
   \<and> (filter (\<lambda>d. user d = u \<and> friend d = f) ms \<noteq> [] \<longrightarrow>
        fst (removeMood u f ms) = Inr ''Mood removed successfully!''
        \<and> filter (\<lambda>d. user d = u \<and> friend d = f) (snd (removeMood u f ms)) =
            tl (filter (\<lambda>d. user d = u \<and> friend d = f) ms)
        \<and> filter (\<lambda>d. \<not> (user d = u \<and> friend d = f)) (snd (removeMood u f ms)) =
            filter (\<lambda>d. \<not> (user d = u \<and> friend d = f)) ms)"
proof -
  let ?flt = "\<lambda>d. user d = u \<and> friend d = f"
  have r: "removeMood u f ms =
             (if find ?flt ms = None
              then (Inl (NotFoundError ''No mood was set for this user.''), ms)
              else (Inr ''Mood removed successfully!'', delete_first ?flt ms))"
    by (simp add: removeMood_def deleteOne_def delete_first_no_match)
  have n: "(find ?flt ms = None) = (filter ?flt ms = [])"
    by (rule find_None_filter)
  have d: "(fst (deleteOne ?flt ms) = 0) = (filter ?flt ms = [])"
    using n by (simp add: deleteOne_def)
  have k: "filter (\<lambda>d. \<not> ?flt d) (delete_first ?flt ms) = filter (\<lambda>d. \<not> ?flt d) ms"
    by (rule filter_not_delete_first)
  show ?thesis
    unfolding d r n using k
    by (simp add: filter_delete_first)
qed

theorem removeMood_NotFound_iff_none_deleted_witness:
  "fst (removeMood 1 2 []) = Inl (NotFoundError ''No mood was set for this user.'')
   \<and> snd (removeMood 1 2 []) = []
   \<and> filter (\<lambda>d. user d = 1 \<and> friend d = 2)
        [\<lparr>oid = 0, dateCreated = 10, dateUpdated = 10, user = 1, friend = 2, mood = [9786]\<rparr>]
       \<noteq> []
   \<and> fst (removeMood 1 2
        [\<lparr>oid = 0, dateCreated = 10, dateUpdated = 10, user = 1, friend = 2, mood = [9786]\<rparr>])
       = Inr ''Mood removed successfully!''
   \<and> filter (\<lambda>d. user d = 1 \<and> friend d = 2) (snd (removeMood 1 2
        [\<lparr>oid = 0, dateCreated = 10, dateUpdated = 10, user = 1, friend = 2, mood = [9786]\<rparr>]))
       = []"
  using removeMood_NotFound_iff_none_deleted [of 1 2 "[]"]
    removeMood_NotFound_iff_none_deleted [of 1 2
      "[\<lparr>oid = 0, dateCreated = 10, dateUpdated = 10, user = 1, friend = 2, mood = [9786]\<rparr>]"]
  by simp

text \<open>
  C9. In every collection reached from the empty one by operations of the concept, each
  user has at most one mood document, whatever the friends. In any collection, \<open>setMood\<close>
  adds a document exactly when the mood is valid and the user has no mood document at all
  (for any friend); otherwise the number of documents stays.
\<close>

theorem one_mood_document_per_user:
  "length (filter (\<lambda>d. user d = u) (run_moods emoji ops [])) \<le> 1
   \<and> length (snd (setMood emoji u f m now ms)) =
       (if test_Emoji emoji m \<and> filter (\<lambda>d. user d = u) ms = []
        then Suc (length ms) else length ms)"
proof
  have "distinct (map user (run_moods emoji ops []))"
    by (rule distinct_users_run) simp
  then show "length (filter (\<lambda>d. user d = u) (run_moods emoji ops [])) \<le> 1"
    by (rule distinct_map_count)
  show "length (snd (setMood emoji u f m now ms)) =
       (if test_Emoji emoji m \<and> filter (\<lambda>d. user d = u) ms = []
        then Suc (length ms) else length ms)"
    by (simp add: setMood_cases find_None_filter length_update_first)
qed

text \<open>
  C6, on the code: user 1 has a mood stored for friend 2. Setting a mood for the pair of
  user 1 and friend 3 twice answers "Mood updated successfully!" with no mood document
  both times and stores nothing: the test for an existing mood filters by the user alone,
  finds the document for friend 2, and the update filtered by user and friend matches no
  document. No record is stored for the pair afterwards, where the claim has exactly one.
\<close>

theorem setMood_twice_for_second_friend:
  "setMood faces 1 3 [9786] 20
     [\<lparr>oid = 0, dateCreated = 10, dateUpdated = 10, user = 1, friend = 2, mood = [9786]\<rparr>] =
     (Inr \<lparr>set_msg = ''Mood updated successfully!'', set_mood = None\<rparr>,
      [\<lparr>oid = 0, dateCreated = 10, dateUpdated = 10, user = 1, friend = 2, mood = [9786]\<rparr>])
   \<and> setMood faces 1 3 [9785] 30
     [\<lparr>oid = 0, dateCreated = 10, dateUpdated = 10, user = 1, friend = 2, mood = [9786]\<rparr>] =
     (Inr \<lparr>set_msg = ''Mood updated successfully!'', set_mood = None\<rparr>,
      [\<lparr>oid = 0, dateCreated = 10, dateUpdated = 10, user = 1, friend = 2, mood = [9786]\<rparr>])
   \<and> filter (\<lambda>d. user d = 1 \<and> friend d = 3)
       (snd (setMood faces 1 3 [9785] 30 (snd (setMood faces 1 3 [9786] 20
          [\<lparr>oid = 0, dateCreated = 10, dateUpdated = 10, user = 1, friend = 2,
             mood = [9786]\<rparr>])))) = []"
  by (simp add: setMood_def faces_def test_Emoji_def readOne_def partialUpdateOne_def)

section \<open>The routes of the calls: the claim\<close>

text \<open>
  C1, on the code: alice's \<open>POST /calls\<close> succeeds and stores the call to bob, without end
  time. Then \<open>GET /calls/status\<close> for bob raises a TypeError instead of answering status
  "pending" with caller "alice": the route calls \<open>VideoCalling.getCallStatusForUser\<close>, and the
  class defines no such method. For the same reason \<open>GET /calls/status\<close> for alice,
  bob's \<open>PUT /calls/accept\<close> (which calls \<open>acceptPendingCall\<close>) and bob's \<open>PUT /calls/end\<close>
  (which calls \<open>getCallStatusForUser\<close>) raise a TypeError and leave the stored call as it
  is, so no status check ever answers "pending", "active" or that there is no call.
\<close>

theorem call_scenario_status:
  "alice_called =
     \<lparr>users = [(1, ''alice''), (2, ''bob'')], friends = [(1, 2)],
      calls = [\<lparr>oid = 0, dateCreated = 100, dateUpdated = 100, caller = 1, recipient = 2,
                 startTime = 100, endTime = None, status = None\<rparr>]\<rparr>
   \<and> route_getCallStatus VideoCalling (Some 2) alice_called =
       Inl (TypeError ''getCallStatusForUser'')
   \<and> route_getCallStatus VideoCalling (Some 1) alice_called =
       Inl (TypeError ''getCallStatusForUser'')
   \<and> route_acceptCall (VideoCalling :: string VideoCalling_properties) (Some 2) alice_called =
       (Inl (TypeError ''acceptPendingCall''), alice_called)
   \<and> route_endCall VideoCalling (Some 2) 300 alice_called =
       (Inl (TypeError ''getCallStatusForUser''), alice_called)"
  by (simp add: alice_called_calls route_getCallStatus_def route_acceptCall_def
        route_endCall_def getUser_def VideoCalling_def)

end
